theory Spec2Isabelle
  imports Complex_Main
begin

section \<open>The session context of contexts/AuthContext.tsx\<close>

text \<open>
  The component keeps four pieces of React state (\<open>user\<close>, \<open>admin\<close>, \<open>isLoading\<close>,
  \<open>isInitialized\<close>), mirrors the two sessions into the browser's local storage under the keys
  \<open>user\<close> and \<open>admin\<close>, and awaits the operations of \<open>MockDataService\<close>. The model is:
  \<^item> JavaScript values that reach the state through \<open>JSON.parse\<close> are a datatype \<open>jsval\<close>;
  \<^item> the React state and the two storage keys are one record, updated by the setters;
  \<^item> an \<open>async\<close> function is a tree: a leaf \<open>Return\<close> carries the returned object and the
    state at that moment, an inner node is an \<open>await\<close> of one service call, carrying the state
    at the suspension, the arguments of the call and the continuation, which receives the
    promise's outcome (rejected, or resolved with the result object);
  \<^item> \<open>try\<close>/\<open>catch\<close>/\<open>finally\<close> are written out: a rejected promise continues in the
    \<open>catch\<close> block, and every path ends in the \<open>finally\<close> block.
  As in the component's own design (one cooperative execution context, no reentrant calls), the
  state is changed only by the component's code, not while a call is suspended.
\<close>

subsection \<open>JavaScript values\<close>

text \<open>
  What \<open>JSON.parse\<close> can return, plus \<open>undefined\<close> (the value of a missing property).
  Numbers are doubles in JavaScript; only whether a number is zero matters here.
\<close>

datatype jsval =
    JUndefined
  | JNull
  | JBool bool
  | JNum real
  | JStr string
  | JArr "jsval list"
  | JObj "(string \<times> jsval) list"

text \<open>Truthiness, as \<open>if (v)\<close>, \<open>!!v\<close> and \<open>v || w\<close> test it.\<close>

fun truthy :: "jsval \<Rightarrow> bool" where
  "truthy JUndefined = False"
| "truthy JNull = False"
| "truthy (JBool b) = b"
| "truthy (JNum r) = (r \<noteq> 0)"
| "truthy (JStr s) = (s \<noteq> [])"
| "truthy (JArr vs) = True"
| "truthy (JObj fs) = True"

definition js_or :: "jsval \<Rightarrow> jsval \<Rightarrow> jsval" where
  "js_or a b = (if truthy a then a else b)"

text \<open>
  Reading a property of \<open>null\<close> or \<open>undefined\<close> throws a TypeError. On every other value the
  read returns the object's own property, or \<open>undefined\<close>: none of the names this component
  reads (\<open>id\<close>, \<open>email\<close>, \<open>name\<close>, \<open>full_name\<close>, \<open>rollNumber\<close>, \<open>roll_number\<close>, \<open>branch\<close>,
  \<open>year\<close>, \<open>phone\<close>, \<open>phone_number\<close>, \<open>status\<close>) is defined on a prototype of a parsed value.
\<close>

definition nullish :: "jsval \<Rightarrow> bool" where
  "nullish v = (v = JUndefined \<or> v = JNull)"

fun get :: "jsval \<Rightarrow> string \<Rightarrow> jsval" where
  "get (JObj fs) k = (case map_of fs k of None \<Rightarrow> JUndefined | Some v \<Rightarrow> v)"
| "get v k = JUndefined"

text \<open>
  \<open>JSON.parse\<close> and \<open>JSON.stringify\<close> are built into the language, not code of the
  component: they are a parameter. \<open>parse\<close> returns \<open>None\<close> where \<open>JSON.parse\<close> throws a
  SyntaxError (malformed text).
\<close>

record JSON =
  parse :: "string \<Rightarrow> jsval option"
  stringify :: "jsval \<Rightarrow> string"

subsection \<open>The state\<close>

text \<open>
  \<open>interface AuthUser\<close>. The fields are declared as strings, but \<open>initializeAuth\<close> fills them
  from a parsed value of any shape, so at run time they hold arbitrary JavaScript values.
\<close>

record AuthUser =
  id :: jsval
  email :: jsval
  full_name :: jsval
  roll_number :: jsval
  branch :: jsval
  year :: jsval
  phone_number :: jsval
  status :: jsval

text \<open>
  The four \<open>useState\<close> cells and the local storage. \<open>admin\<close> holds whatever was parsed from
  storage or returned by the service (\<open>null\<close> when absent). \<open>getItem\<close> returns \<open>null\<close>
  (\<open>None\<close>) for a missing key. The storage is a total map: a browser that refuses access
  to the storage, or a full storage, is not modelled.
\<close>

record auth_state =
  user :: "AuthUser option"
  admin :: jsval
  isLoading :: bool
  isInitialized :: bool
  localStorage :: "string \<rightharpoonup> string"

definition initial_state :: "(string \<rightharpoonup> string) \<Rightarrow> auth_state" where
  "initial_state ls =
     \<lparr>user = None, admin = JNull, isLoading = False, isInitialized = False, localStorage = ls\<rparr>"

definition setUser :: "AuthUser option \<Rightarrow> auth_state \<Rightarrow> auth_state" where
  "setUser u s = s\<lparr>user := u\<rparr>"

definition setAdmin :: "jsval \<Rightarrow> auth_state \<Rightarrow> auth_state" where
  "setAdmin a s = s\<lparr>admin := a\<rparr>"

definition setIsLoading :: "bool \<Rightarrow> auth_state \<Rightarrow> auth_state" where
  "setIsLoading b s = s\<lparr>isLoading := b\<rparr>"

definition setIsInitialized :: "bool \<Rightarrow> auth_state \<Rightarrow> auth_state" where
  "setIsInitialized b s = s\<lparr>isInitialized := b\<rparr>"

definition getItem :: "string \<Rightarrow> auth_state \<Rightarrow> string option" where
  "getItem k s = localStorage s k"

definition setItem :: "string \<Rightarrow> string \<Rightarrow> auth_state \<Rightarrow> auth_state" where
  "setItem k v s = s\<lparr>localStorage := (localStorage s)(k \<mapsto> v)\<rparr>"

definition removeItem :: "string \<Rightarrow> auth_state \<Rightarrow> auth_state" where
  "removeItem k s = s\<lparr>localStorage := (localStorage s)(k := None)\<rparr>"

definition isAuthenticated :: "auth_state \<Rightarrow> bool" where
  "isAuthenticated s = (user s \<noteq> None)"

definition isAdminAuthenticated :: "auth_state \<Rightarrow> bool" where
  "isAdminAuthenticated s = truthy (admin s)"

subsection \<open>initializeAuth\<close>

text \<open>
  The \<open>try\<close> block either completes or throws; state changes made before the throw stay.
  \<open>if (storedUser)\<close> is false for a missing key and for the empty string.
\<close>

datatype completion = Threw auth_state | Completed auth_state

definition restoredUser :: "jsval \<Rightarrow> AuthUser" where
  "restoredUser userData =
     \<lparr>AuthUser.id = js_or (get userData ''id'') (JStr ''user-1''),
      AuthUser.email = get userData ''email'',
      AuthUser.full_name = js_or (get userData ''name'') (get userData ''full_name''),
      AuthUser.roll_number = js_or (get userData ''rollNumber'') (get userData ''roll_number''),
      AuthUser.branch = get userData ''branch'',
      AuthUser.year = get userData ''year'',
      AuthUser.phone_number = js_or (get userData ''phone'') (get userData ''phone_number''),
      AuthUser.status = js_or (get userData ''status'') (JStr ''active'')\<rparr>"

definition initializeAuth_user :: "JSON \<Rightarrow> auth_state \<Rightarrow> completion" where
  "initializeAuth_user J s =
     (case getItem ''user'' s of
        None \<Rightarrow> Completed s
      | Some storedUser \<Rightarrow>
          if storedUser = [] then Completed s
          else (case parse J storedUser of
                  None \<Rightarrow> Threw s
                | Some userData \<Rightarrow>
                    if nullish userData then Threw s
                    else Completed (setUser (Some (restoredUser userData)) s)))"

definition initializeAuth_admin :: "JSON \<Rightarrow> auth_state \<Rightarrow> completion" where
  "initializeAuth_admin J s =
     (case getItem ''admin'' s of
        None \<Rightarrow> Completed s
      | Some storedAdmin \<Rightarrow>
          if storedAdmin = [] then Completed s
          else (case parse J storedAdmin of
                  None \<Rightarrow> Threw s
                | Some adminData \<Rightarrow> Completed (setAdmin adminData s)))"

definition initializeAuth_try :: "JSON \<Rightarrow> auth_state \<Rightarrow> completion" where
  "initializeAuth_try J s =
     (case initializeAuth_user J s of
        Threw s1 \<Rightarrow> Threw s1
      | Completed s1 \<Rightarrow> initializeAuth_admin J s1)"

definition initializeAuth_catch :: "auth_state \<Rightarrow> auth_state" where
  "initializeAuth_catch s = removeItem ''admin'' (removeItem ''user'' s)"

definition initializeAuth :: "JSON \<Rightarrow> auth_state \<Rightarrow> auth_state" where
  "initializeAuth J s =
     setIsInitialized True
       (case initializeAuth_try J s of
          Threw s1 \<Rightarrow> initializeAuth_catch s1
        | Completed s1 \<Rightarrow> s1)"

subsection \<open>logout and adminLogout\<close>

definition logout :: "auth_state \<Rightarrow> auth_state" where
  "logout s = removeItem ''user'' (setUser None s)"

definition adminLogout :: "auth_state \<Rightarrow> auth_state" where
  "adminLogout s = removeItem ''admin'' (setAdmin JNull s)"

subsection \<open>The records of the data service\<close>

text \<open>
  Modelled from the spec: the declaration of \<open>User\<close> (\<open>lib/supabase\<close>) is not among the
  sources. The context reads the fields \<open>id\<close>, \<open>email\<close>, \<open>full_name\<close>, \<open>roll_number\<close>,
  \<open>branch\<close>, \<open>year\<close>, \<open>phone_number\<close>, \<open>status\<close>, writes \<open>last_login\<close>, and \<open>register\<close>
  takes a \<open>User\<close> without \<open>id\<close>, \<open>created_at\<close> and \<open>updated_at\<close>.
\<close>

record NewUser =
  email :: string
  full_name :: string
  roll_number :: string
  branch :: string
  year :: string
  phone_number :: string
  status :: string
  last_login :: "string option"

record User = NewUser +
  id :: string
  created_at :: string
  updated_at :: string

text \<open>The partial record \<open>login\<close> passes to \<open>updateUser\<close>: \<open>{ last_login: ... }\<close>.\<close>

datatype user_patch = LastLogin string

text \<open>The object \<open>register\<close> passes to \<open>createRegistration\<close>.\<close>

record Registration =
  user_id :: string
  registration_date :: string
  status :: string
  submission_status :: string

text \<open>
  A service call returns a promise. It rejects, or resolves with an object \<open>{ data?, error? }\<close>;
  \<open>None\<close> is an absent (or \<open>null\<close>) field. The context never reads the content of
  \<open>error\<close>, only whether it is truthy: \<open>None\<close> also stands for a falsy \<open>error\<close>.
\<close>

datatype 'a outcome = Rejects | Resolves 'a

record 'a service_result =
  data :: "'a option"
  error :: "string option"

subsection \<open>Asynchronous functions\<close>

text \<open>What \<open>login\<close>, \<open>register\<close> and \<open>adminLogin\<close> return: \<open>{ success: true }\<close> or
  \<open>{ success: false, error: message }\<close>.\<close>

datatype result = Success | Failure string

datatype task =
    Return result auth_state
  | GetUserByEmail auth_state string "User service_result outcome \<Rightarrow> task"
  | GetUserByRollNumber auth_state string "User service_result outcome \<Rightarrow> task"
  | UpdateUser auth_state string user_patch "User service_result outcome \<Rightarrow> task"
  | CreateUser auth_state NewUser "User service_result outcome \<Rightarrow> task"
  | CreateRegistration auth_state Registration "Registration service_result outcome \<Rightarrow> task"
  | AuthenticateAdmin auth_state string string "jsval service_result outcome \<Rightarrow> task"

subsection \<open>String operations\<close>

text \<open>\<open>s.includes('@')\<close>; the name \<open>includes\<close> is reserved in Isabelle.\<close>

definition str_includes :: "string \<Rightarrow> char \<Rightarrow> bool" where
  "str_includes s c = (c \<in> set s)"

definition endsWith :: "string \<Rightarrow> string \<Rightarrow> bool" where
  "endsWith s suf = (length suf \<le> length s \<and> drop (length s - length suf) s = suf)"

text \<open>
  A JavaScript string is modelled by its text as a \<open>string\<close>, a character outside ASCII
  being the bytes of its UTF-8 encoding (none of which is an ASCII character).
  \<open>includes('@')\<close> and \<open>endsWith\<close> with the ASCII suffix compare characters one by one,
  which the two definitions above do. \<open>toUpperCase\<close> follows the case mappings of Unicode (it maps every cased letter
  and can lengthen the text); these mappings are data of the language, not code of the
  component, so the function is a parameter of \<open>login\<close>.
\<close>

subsection \<open>login\<close>

text \<open>
  \<open>now\<close> is the value of \<open>new Date().toISOString()\<close> during the call. The parameter
  \<open>password\<close> is kept as in the source.
\<close>

definition login_finally :: "result \<Rightarrow> auth_state \<Rightarrow> task" where
  "login_finally r s = Return r (setIsLoading False s)"

definition login_catch :: "auth_state \<Rightarrow> task" where
  "login_catch s = login_finally (Failure ''An error occurred during login. Please try again.'') s"

definition login_updated ::
  "JSON \<Rightarrow> auth_state \<Rightarrow> User \<Rightarrow> User service_result outcome \<Rightarrow> task" where
  "login_updated J s userData updateResult =
     (case updateResult of
        Rejects \<Rightarrow> login_catch s
      | Resolves _ \<Rightarrow>
          (let authUser =
                 \<lparr>AuthUser.id = JStr (User.id userData),
                  AuthUser.email = JStr (NewUser.email userData),
                  AuthUser.full_name = JStr (NewUser.full_name userData),
                  AuthUser.roll_number = JStr (NewUser.roll_number userData),
                  AuthUser.branch = JStr (NewUser.branch userData),
                  AuthUser.year = JStr (NewUser.year userData),
                  AuthUser.phone_number = JStr (NewUser.phone_number userData),
                  AuthUser.status = JStr (NewUser.status userData)\<rparr>;
               s1 = setUser (Some authUser) s;
               s2 = setItem ''user''
                      (stringify J (JObj
                         [(''id'', JStr (User.id userData)),
                          (''name'', JStr (NewUser.full_name userData)),
                          (''rollNumber'', JStr (NewUser.roll_number userData)),
                          (''email'', JStr (NewUser.email userData)),
                          (''branch'', JStr (NewUser.branch userData)),
                          (''year'', JStr (NewUser.year userData)),
                          (''phone'', JStr (NewUser.phone_number userData)),
                          (''status'', JStr (NewUser.status userData))])) s1
           in login_finally Success s2))"

definition login_found ::
  "JSON \<Rightarrow> string \<Rightarrow> auth_state \<Rightarrow> User service_result outcome \<Rightarrow> task" where
  "login_found J now s userResult =
     (case userResult of
        Rejects \<Rightarrow> login_catch s
      | Resolves r \<Rightarrow>
          (case data r of
             None \<Rightarrow> login_finally (Failure ''No account found with this email or roll number'') s
           | Some userData \<Rightarrow>
               UpdateUser s (User.id userData) (LastLogin now) (login_updated J s userData)))"

definition login ::
  "JSON \<Rightarrow> (string \<Rightarrow> string) \<Rightarrow> string \<Rightarrow> string \<Rightarrow> string \<Rightarrow> auth_state \<Rightarrow> task" where
  "login J toUpperCase now emailOrRoll password s0 =
     (let s = setIsLoading True s0 in
      if str_includes emailOrRoll CHR ''@'' \<and> \<not> endsWith emailOrRoll ''@raghuenggcollege.in''
      then login_finally (Failure ''Please use your college email ID (@raghuenggcollege.in)'') s
      else if str_includes emailOrRoll CHR ''@''
      then GetUserByEmail s emailOrRoll (login_found J now s)
      else GetUserByRollNumber s (toUpperCase emailOrRoll) (login_found J now s))"

subsection \<open>register\<close>

definition register_finally :: "result \<Rightarrow> auth_state \<Rightarrow> task" where
  "register_finally r s = Return r (setIsLoading False s)"

definition register_catch :: "auth_state \<Rightarrow> task" where
  "register_catch s =
     register_finally (Failure ''An error occurred during registration. Please try again.'') s"

definition register_registered :: "auth_state \<Rightarrow> Registration service_result outcome \<Rightarrow> task" where
  "register_registered s registrationResult =
     (case registrationResult of
        Rejects \<Rightarrow> register_catch s
      | Resolves _ \<Rightarrow> register_finally Success s)"

text \<open>\<open>userResult.data!.id\<close> throws a TypeError when \<open>data\<close> is absent.\<close>

definition register_created :: "string \<Rightarrow> auth_state \<Rightarrow> User service_result outcome \<Rightarrow> task" where
  "register_created now s userResult =
     (case userResult of
        Rejects \<Rightarrow> register_catch s
      | Resolves r \<Rightarrow>
          (case error r of
             Some _ \<Rightarrow> register_finally (Failure ''Failed to create account. Please try again.'') s
           | None \<Rightarrow>
               (case data r of
                  None \<Rightarrow> register_catch s
                | Some u \<Rightarrow>
                    CreateRegistration s
                      \<lparr>user_id = User.id u, registration_date = now,
                       Registration.status = ''active'', submission_status = ''none''\<rparr>
                      (register_registered s))))"

definition register_roll_checked ::
  "string \<Rightarrow> NewUser \<Rightarrow> auth_state \<Rightarrow> User service_result outcome \<Rightarrow> task" where
  "register_roll_checked now userData s existingUserByRoll =
     (case existingUserByRoll of
        Rejects \<Rightarrow> register_catch s
      | Resolves r \<Rightarrow>
          (case data r of
             Some _ \<Rightarrow>
               register_finally (Failure ''An account with this roll number already exists'') s
           | None \<Rightarrow> CreateUser s userData (register_created now s)))"

definition register_email_checked ::
  "string \<Rightarrow> NewUser \<Rightarrow> auth_state \<Rightarrow> User service_result outcome \<Rightarrow> task" where
  "register_email_checked now userData s existingUserByEmail =
     (case existingUserByEmail of
        Rejects \<Rightarrow> register_catch s
      | Resolves r \<Rightarrow>
          (case data r of
             Some _ \<Rightarrow> register_finally (Failure ''An account with this email already exists'') s
           | None \<Rightarrow>
               GetUserByRollNumber s (NewUser.roll_number userData)
                 (register_roll_checked now userData s)))"

definition register :: "string \<Rightarrow> NewUser \<Rightarrow> auth_state \<Rightarrow> task" where
  "register now userData s0 =
     (let s = setIsLoading True s0 in
      GetUserByEmail s (NewUser.email userData) (register_email_checked now userData s))"

subsection \<open>adminLogin\<close>

definition adminLogin_finally :: "result \<Rightarrow> auth_state \<Rightarrow> task" where
  "adminLogin_finally r s = Return r (setIsLoading False s)"

definition adminLogin_checked :: "JSON \<Rightarrow> auth_state \<Rightarrow> jsval service_result outcome \<Rightarrow> task" where
  "adminLogin_checked J s result =
     (case result of
        Rejects \<Rightarrow> adminLogin_finally (Failure ''Authentication failed. Please try again.'') s
      | Resolves r \<Rightarrow>
          (case data r of
             None \<Rightarrow> adminLogin_finally (Failure ''Invalid credentials'') s
           | Some a \<Rightarrow>
               if truthy a
               then adminLogin_finally Success (setItem ''admin'' (stringify J a) (setAdmin a s))
               else adminLogin_finally (Failure ''Invalid credentials'') s))"

definition adminLogin :: "JSON \<Rightarrow> string \<Rightarrow> string \<Rightarrow> auth_state \<Rightarrow> task" where
  "adminLogin J username password s0 =
     (let s = setIsLoading True s0 in
      AuthenticateAdmin s username password (adminLogin_checked J s))"

subsection \<open>Running a task against a data service\<close>

text \<open>
  The interface of \<open>MockDataService\<close> as the context calls it, over any backing store
  \<open>'db\<close>: each operation takes the store and gives the outcome of its promise and the store
  afterwards.
\<close>

record 'db MockDataService =
  getUserByEmail :: "string \<Rightarrow> 'db \<Rightarrow> User service_result outcome \<times> 'db"
  getUserByRollNumber :: "string \<Rightarrow> 'db \<Rightarrow> User service_result outcome \<times> 'db"
  updateUser :: "string \<Rightarrow> user_patch \<Rightarrow> 'db \<Rightarrow> User service_result outcome \<times> 'db"
  createUser :: "NewUser \<Rightarrow> 'db \<Rightarrow> User service_result outcome \<times> 'db"
  createRegistration ::
    "Registration \<Rightarrow> 'db \<Rightarrow> Registration service_result outcome \<times> 'db"
  authenticateAdmin :: "string \<Rightarrow> string \<Rightarrow> 'db \<Rightarrow> jsval service_result outcome \<times> 'db"

primrec run :: "'db MockDataService \<Rightarrow> task \<Rightarrow> 'db \<Rightarrow> (result \<times> auth_state) \<times> 'db" where
  "run svc (Return r s) db = ((r, s), db)"
| "run svc (GetUserByEmail s e k) db =
     (case getUserByEmail svc e db of (out, db') \<Rightarrow> run svc (k out) db')"
| "run svc (GetUserByRollNumber s n k) db =
     (case getUserByRollNumber svc n db of (out, db') \<Rightarrow> run svc (k out) db')"
| "run svc (UpdateUser s i p k) db =
     (case updateUser svc i p db of (out, db') \<Rightarrow> run svc (k out) db')"
| "run svc (CreateUser s u k) db =
     (case createUser svc u db of (out, db') \<Rightarrow> run svc (k out) db')"
| "run svc (CreateRegistration s g k) db =
     (case createRegistration svc g db of (out, db') \<Rightarrow> run svc (k out) db')"
| "run svc (AuthenticateAdmin s u p k) db =
     (case authenticateAdmin svc u p db of (out, db') \<Rightarrow> run svc (k out) db')"

text \<open>
  \<open>during P Q t\<close>: \<open>P\<close> holds of the state at every suspension of \<open>t\<close> and \<open>Q\<close> of the
  result and state at every return, whatever the outcomes of the awaited promises.
\<close>

primrec during :: "(auth_state \<Rightarrow> bool) \<Rightarrow> (result \<Rightarrow> auth_state \<Rightarrow> bool) \<Rightarrow> task \<Rightarrow> bool" where
  "during P Q (Return r s) = Q r s"
| "during P Q (GetUserByEmail s e k) = (P s \<and> (\<forall>out. during P Q (k out)))"
| "during P Q (GetUserByRollNumber s n k) = (P s \<and> (\<forall>out. during P Q (k out)))"
| "during P Q (UpdateUser s i p k) = (P s \<and> (\<forall>out. during P Q (k out)))"
| "during P Q (CreateUser s u k) = (P s \<and> (\<forall>out. during P Q (k out)))"
| "during P Q (CreateRegistration s g k) = (P s \<and> (\<forall>out. during P Q (k out)))"
| "during P Q (AuthenticateAdmin s u p k) = (P s \<and> (\<forall>out. during P Q (k out)))"

text \<open>
  The state at the first suspension of a task: the state an observer sees while the first
  awaited call is in flight. A task that returns without awaiting has none.
\<close>

fun first_suspension :: "task \<Rightarrow> auth_state option" where
  "first_suspension (Return r s) = None"
| "first_suspension (GetUserByEmail s e k) = Some s"
| "first_suspension (GetUserByRollNumber s n k) = Some s"
| "first_suspension (UpdateUser s i p k) = Some s"
| "first_suspension (CreateUser s u k) = Some s"
| "first_suspension (CreateRegistration s g k) = Some s"
| "first_suspension (AuthenticateAdmin s u p k) = Some s"

text \<open>\<open>completes t r s\<close>: for some outcomes of its awaits, \<open>t\<close> returns \<open>r\<close> in state \<open>s\<close>.\<close>

inductive completes :: "task \<Rightarrow> result \<Rightarrow> auth_state \<Rightarrow> bool" where
  Return: "completes (Return r s) r s"
| GetUserByEmail: "completes (k out) r s' \<Longrightarrow> completes (GetUserByEmail s e k) r s'"
| GetUserByRollNumber: "completes (k out) r s' \<Longrightarrow> completes (GetUserByRollNumber s n k) r s'"
| UpdateUser: "completes (k out) r s' \<Longrightarrow> completes (UpdateUser s i p k) r s'"
| CreateUser: "completes (k out) r s' \<Longrightarrow> completes (CreateUser s u k) r s'"
| CreateRegistration: "completes (k out) r s' \<Longrightarrow> completes (CreateRegistration s g k) r s'"
| AuthenticateAdmin: "completes (k out) r s' \<Longrightarrow> completes (AuthenticateAdmin s u p k) r s'"

text \<open>
  The states between calls: the state of the mounted provider (\<open>useState(null)\<close>,
  \<open>useState(false)\<close>) over any stored content, and every state in which one of the
  component's operations has completed from such a state.
\<close>

inductive quiescent :: "auth_state \<Rightarrow> bool" where
  mount: "quiescent (initial_state ls)"
| initializeAuth: "quiescent s \<Longrightarrow> quiescent (initializeAuth J s)"
| logout: "quiescent s \<Longrightarrow> quiescent (logout s)"
| adminLogout: "quiescent s \<Longrightarrow> quiescent (adminLogout s)"
| login: "quiescent s \<Longrightarrow> completes (login J toUpperCase now emailOrRoll password s) r s' \<Longrightarrow> quiescent s'"
| register: "quiescent s \<Longrightarrow> completes (register now userData s) r s' \<Longrightarrow> quiescent s'"
| adminLogin: "quiescent s \<Longrightarrow> completes (adminLogin J username password s) r s' \<Longrightarrow> quiescent s'"

subsection \<open>Identifiers that differ only in letter case\<close>

text \<open>
  Upper-casing of the ASCII letters, every other character kept: what \<open>toUpperCase\<close> does
  on ASCII text. Two texts differ only in the case of ASCII letters when they are equal
  character by character up to replacing a letter \<open>a\<close> to \<open>z\<close> by its capital or back.
\<close>

definition ascii_upper :: "char \<Rightarrow> char" where
  "ascii_upper c =
     (case map_of (zip ''abcdefghijklmnopqrstuvwxyz'' ''ABCDEFGHIJKLMNOPQRSTUVWXYZ'') c of
        None \<Rightarrow> c
      | Some u \<Rightarrow> u)"

definition toUpperCase_ascii :: "string \<Rightarrow> string" where
  "toUpperCase_ascii s = map ascii_upper s"

definition case_pair :: "char \<Rightarrow> char \<Rightarrow> bool" where
  "case_pair c d =
     ((c, d) \<in> set (zip ''abcdefghijklmnopqrstuvwxyz'' ''ABCDEFGHIJKLMNOPQRSTUVWXYZ''))"

definition same_letter :: "char \<Rightarrow> char \<Rightarrow> bool" where
  "same_letter c d = (c = d \<or> case_pair c d \<or> case_pair d c)"

definition differ_only_in_ascii_case :: "string \<Rightarrow> string \<Rightarrow> bool" where
  "differ_only_in_ascii_case a b = list_all2 same_letter a b"

text \<open>
  \<open>toUpperCase\<close> does not tell an ASCII letter from its capital, wherever the letter stands
  in the text: a property of the language's function (its case mappings do not depend on the
  neighbouring characters), here a condition on the parameter.
\<close>

definition ignores_ascii_case :: "(string \<Rightarrow> string) \<Rightarrow> bool" where
  "ignores_ascii_case toUpperCase =
     (\<forall>x c y. toUpperCase (x @ c # y) = toUpperCase (x @ ascii_upper c # y))"

text \<open>
  Outside ASCII, letters that differ only in case need not have the same upper-case form.
  The small sharp s (U+00DF, in UTF-8 the bytes C3 9F) is upper-cased to \<open>SS\<close>; its capital
  (U+1E9E, the bytes E1 BA 9E) is left as it is. \<open>toUpperCase_sharp_s\<close> is \<open>toUpperCase\<close>
  on ASCII text and on these two texts.
\<close>

definition sharp_s :: string where
  "sharp_s = [CHR 0xC3, CHR 0x9F]"

definition capital_sharp_s :: string where
  "capital_sharp_s = [CHR 0xE1, CHR 0xBA, CHR 0x9E]"

definition toUpperCase_sharp_s :: "string \<Rightarrow> string" where
  "toUpperCase_sharp_s s = (if s = sharp_s then ''SS'' else toUpperCase_ascii s)"

subsection \<open>A data service over a list of records\<close>

text \<open>
  Modelled from the spec: the implementation of \<open>MockDataService\<close> (\<open>lib/mockData\<close>) is not
  among the sources. The spec names its operations and describes it as plain CRUD over a
  backing store where an object exists in a list, with the identity and the timestamps of a
  new user assigned by the store: a lookup returns the first record with the given email or
  roll number, \<open>createUser\<close> appends the new record, \<open>updateUser\<close> patches the record with
  the given id, \<open>authenticateAdmin\<close> returns the admin record stored for the credentials.
  No operation rejects. \<open>new_id\<close> chooses the id of a new user and \<open>clock\<close> is its
  timestamp.
\<close>

record store =
  users :: "User list"
  registrations :: "Registration list"
  admins :: "((string \<times> string) \<times> jsval) list"

definition store_getUserByEmail :: "string \<Rightarrow> store \<Rightarrow> User service_result outcome \<times> store" where
  "store_getUserByEmail e db =
     (Resolves \<lparr>data = find (\<lambda>u. NewUser.email u = e) (users db), error = None\<rparr>, db)"

definition store_getUserByRollNumber ::
  "string \<Rightarrow> store \<Rightarrow> User service_result outcome \<times> store" where
  "store_getUserByRollNumber n db =
     (Resolves \<lparr>data = find (\<lambda>u. NewUser.roll_number u = n) (users db), error = None\<rparr>, db)"

fun store_updateUser ::
  "string \<Rightarrow> user_patch \<Rightarrow> store \<Rightarrow> User service_result outcome \<times> store" where
  "store_updateUser i (LastLogin t) db =
     (let us = map (\<lambda>u. if User.id u = i then u\<lparr>last_login := Some t\<rparr> else u) (users db)
      in (Resolves \<lparr>data = find (\<lambda>u. User.id u = i) us, error = None\<rparr>, db\<lparr>users := us\<rparr>))"

definition store_createUser ::
  "(store \<Rightarrow> string) \<Rightarrow> string \<Rightarrow> NewUser \<Rightarrow> store \<Rightarrow> User service_result outcome \<times> store" where
  "store_createUser new_id clock nu db =
     (let u = \<lparr>NewUser.email = NewUser.email nu, NewUser.full_name = NewUser.full_name nu,
               NewUser.roll_number = NewUser.roll_number nu, NewUser.branch = NewUser.branch nu,
               NewUser.year = NewUser.year nu, NewUser.phone_number = NewUser.phone_number nu,
               NewUser.status = NewUser.status nu, last_login = last_login nu,
               User.id = new_id db, created_at = clock, updated_at = clock\<rparr>
      in (Resolves \<lparr>data = Some u, error = None\<rparr>, db\<lparr>users := users db @ [u]\<rparr>))"

definition store_createRegistration ::
  "Registration \<Rightarrow> store \<Rightarrow> Registration service_result outcome \<times> store" where
  "store_createRegistration g db =
     (Resolves \<lparr>data = Some g, error = None\<rparr>, db\<lparr>registrations := registrations db @ [g]\<rparr>)"

definition store_authenticateAdmin ::
  "string \<Rightarrow> string \<Rightarrow> store \<Rightarrow> jsval service_result outcome \<times> store" where
  "store_authenticateAdmin username password db =
     (Resolves \<lparr>data = map_of (admins db) (username, password), error = None\<rparr>, db)"

definition store_service :: "(store \<Rightarrow> string) \<Rightarrow> string \<Rightarrow> store MockDataService" where
  "store_service new_id clock =
     \<lparr>getUserByEmail = store_getUserByEmail,
      getUserByRollNumber = store_getUserByRollNumber,
      updateUser = store_updateUser,
      createUser = store_createUser new_id clock,
      createRegistration = store_createRegistration,
      authenticateAdmin = store_authenticateAdmin\<rparr>"

subsection \<open>Concrete values for evaluation\<close>

text \<open>
  A fragment of \<open>JSON.parse\<close> and \<open>JSON.stringify\<close> given by a table of texts and their
  values: a text outside the table does not parse, and a value is written as the text it is
  paired with (as the empty text when it has none).
\<close>

definition JSON_of_table :: "(string \<times> jsval) list \<Rightarrow> JSON" where
  "JSON_of_table tab =
     \<lparr>parse = map_of tab,
      stringify = (\<lambda>v. case find (\<lambda>p. snd p = v) tab of None \<Rightarrow> [] | Some p \<Rightarrow> fst p)\<rparr>"

definition alice :: User where
  "alice =
     \<lparr>NewUser.email = ''alice@raghuenggcollege.in'', NewUser.full_name = ''Alice'',
      NewUser.roll_number = ''R1'', NewUser.branch = ''CSE'', NewUser.year = ''2'',
      NewUser.phone_number = ''900'', NewUser.status = ''active'', last_login = None,
      User.id = ''u1'', created_at = ''t0'', updated_at = ''t0''\<rparr>"

definition alice_mirror :: jsval where
  "alice_mirror =
     JObj [(''id'', JStr ''u1''), (''name'', JStr ''Alice''), (''rollNumber'', JStr ''R1''),
           (''email'', JStr ''alice@raghuenggcollege.in''), (''branch'', JStr ''CSE''),
           (''year'', JStr ''2''), (''phone'', JStr ''900''), (''status'', JStr ''active'')]"

definition alice_text :: string where
  \<open>alice_text =
     ''{"id":"u1","name":"Alice","rollNumber":"R1","email":"alice@raghuenggcollege.in","branch":"CSE","year":"2","phone":"900","status":"active"}''\<close>

definition sample_JSON :: JSON where
  "sample_JSON =
     JSON_of_table [(''{}'', JObj []), (''null'', JNull), (alice_text, alice_mirror)]"

definition sample_store :: store where
  "sample_store = \<lparr>users = [alice], registrations = [], admins = []\<rparr>"

definition sample_service :: "store MockDataService" where
  "sample_service = store_service (\<lambda>db. ''u2'') ''t0''"

text \<open>Registration inputs: one that repeats the email and roll number of \<open>alice\<close>, one with
  the email of the spec's example, one new member with a college address.\<close>

definition alice_again :: NewUser where
  "alice_again =
     \<lparr>NewUser.email = ''alice@raghuenggcollege.in'', NewUser.full_name = ''Alice B'',
      NewUser.roll_number = ''R1'', NewUser.branch = ''ECE'', NewUser.year = ''1'',
      NewUser.phone_number = ''901'', NewUser.status = ''pending'', last_login = None\<rparr>"

definition inst_user :: NewUser where
  "inst_user =
     \<lparr>NewUser.email = ''a@inst.edu'', NewUser.full_name = ''A'',
      NewUser.roll_number = ''R1'', NewUser.branch = ''CSE'', NewUser.year = ''1'',
      NewUser.phone_number = ''902'', NewUser.status = ''active'', last_login = None\<rparr>"

definition bob :: NewUser where
  "bob =
     \<lparr>NewUser.email = ''bob@raghuenggcollege.in'', NewUser.full_name = ''Bob'',
      NewUser.roll_number = ''R2'', NewUser.branch = ''CSE'', NewUser.year = ''1'',
      NewUser.phone_number = ''903'', NewUser.status = ''active'', last_login = None\<rparr>"

definition empty_store :: store where
  "empty_store = \<lparr>users = [], registrations = [], admins = []\<rparr>"

text \<open>Two services whose \<open>updateUser\<close> fails: by a rejected promise, and by resolving with an
  \<open>error\<close>.\<close>

definition rejecting_update :: "store MockDataService" where
  "rejecting_update = sample_service\<lparr>updateUser := (\<lambda>i p db. (Rejects, db))\<rparr>"

definition failing_update :: "store MockDataService" where
  "failing_update =
     sample_service\<lparr>updateUser :=
       (\<lambda>i p db. (Resolves \<lparr>data = None, error = Some ''update failed''\<rparr>, db))\<rparr>"

section \<open>Properties\<close>

lemmas state_defs = setUser_def setAdmin_def setIsLoading_def setIsInitialized_def
  getItem_def setItem_def removeItem_def

lemmas initializeAuth_defs = initializeAuth_def initializeAuth_try_def initializeAuth_catch_def
  initializeAuth_user_def initializeAuth_admin_def

lemmas login_defs = login_def login_found_def login_updated_def login_catch_def login_finally_def
lemmas register_defs = register_def register_email_checked_def register_roll_checked_def
  register_created_def register_registered_def register_catch_def register_finally_def
lemmas adminLogin_defs = adminLogin_def adminLogin_checked_def adminLogin_finally_def
lemmas store_defs = store_service_def store_getUserByEmail_def store_getUserByRollNumber_def
  store_createUser_def store_createRegistration_def store_authenticateAdmin_def
lemmas sample_defs = sample_service_def sample_store_def alice_def sample_JSON_def
  JSON_of_table_def alice_mirror_def

subsection \<open>The password is not consulted\<close>

text \<open>
  C1. \<open>login\<close> never reads its \<open>password\<close> parameter: for any two passwords the calls are
  the same task (the same service calls with the same arguments, the same state at every
  suspension, the same result and final state for every outcome of the calls), so against
  every data service and store they return the same result and leave the same state.
\<close>

theorem login_password_irrelevant:
  "login J toUpperCase now identifier p1 s = login J toUpperCase now identifier p2 s \<and>
   run svc (login J toUpperCase now identifier p1 s) db = run svc (login J toUpperCase now identifier p2 s) db"
  by (simp add: login_def)

subsection \<open>The domain check of login\<close>

text \<open>
  C4. An identifier that contains \<open>@\<close> and does not end with \<open>@raghuenggcollege.in\<close> makes
  \<open>login\<close> return the domain message at once: the task is a \<open>Return\<close> with no awaited
  call, so no lookup is made, and against every service and store (a matching account or not)
  the result is the same and the store is left as it was.
\<close>

theorem login_invalid_domain:
  assumes "str_includes identifier CHR ''@''"
    and "\<not> endsWith identifier ''@raghuenggcollege.in''"
  shows "login J toUpperCase now identifier password s =
           Return (Failure ''Please use your college email ID (@raghuenggcollege.in)'')
             (s\<lparr>isLoading := False\<rparr>) \<and>
         run svc (login J toUpperCase now identifier password s) db =
           ((Failure ''Please use your college email ID (@raghuenggcollege.in)'',
             s\<lparr>isLoading := False\<rparr>), db)"
  using assms by (simp add: login_def login_finally_def state_defs)

theorem login_invalid_domain_witness:
  "str_includes ''alice@gmail.com'' CHR ''@'' \<and>
   \<not> endsWith ''alice@gmail.com'' ''@raghuenggcollege.in'' \<and>
   run sample_service (login sample_JSON toUpperCase_ascii ''t1'' ''alice@gmail.com'' ''pw'' (initial_state Map.empty))
     sample_store =
     ((Failure ''Please use your college email ID (@raghuenggcollege.in)'',
       (initial_state Map.empty)\<lparr>isLoading := False\<rparr>), sample_store)"
proof -
  have a: "str_includes ''alice@gmail.com'' CHR ''@''"
    by (simp add: str_includes_def)
  have b: "\<not> endsWith ''alice@gmail.com'' ''@raghuenggcollege.in''"
    by (simp add: endsWith_def)
  from login_invalid_domain [OF a b, of sample_JSON toUpperCase_ascii "''t1''" "''pw''"
      "initial_state Map.empty" sample_service sample_store] a b
  show ?thesis by simp
qed

subsection \<open>Roll numbers are upper-cased\<close>

lemma case_pair_upper: "case_pair c d \<Longrightarrow> ascii_upper c = d \<and> ascii_upper d = d"
  unfolding case_pair_def
  apply simp
  apply (elim disjE conjE; hypsubst; simp add: ascii_upper_def)
  done

lemma case_pair_at: "case_pair c d \<Longrightarrow> c \<noteq> CHR ''@'' \<and> d \<noteq> CHR ''@''"
  unfolding case_pair_def
  apply simp
  apply (elim disjE conjE; hypsubst; simp)
  done

lemma same_letter_upper: "same_letter c d \<Longrightarrow> ascii_upper c = ascii_upper d"
  unfolding same_letter_def
  using case_pair_upper [of c d] case_pair_upper [of d c] by auto

lemma same_letter_at: "same_letter c d \<Longrightarrow> (c = CHR ''@'') = (d = CHR ''@'')"
  unfolding same_letter_def
  using case_pair_at [of c d] case_pair_at [of d c] by auto

lemma differ_toUpperCase_ascii:
  "differ_only_in_ascii_case a b \<Longrightarrow> toUpperCase_ascii a = toUpperCase_ascii b"
  unfolding differ_only_in_ascii_case_def toUpperCase_ascii_def
  by (induction a b rule: list_all2_induct) (auto dest: same_letter_upper)

lemma differ_includes:
  "differ_only_in_ascii_case a b \<Longrightarrow> str_includes a CHR ''@'' = str_includes b CHR ''@''"
  unfolding differ_only_in_ascii_case_def str_includes_def
  by (induction a b rule: list_all2_induct) (auto dest: same_letter_at)

lemma ignores_ascii_case_prefix:
  "ignores_ascii_case toUpperCase \<Longrightarrow>
   toUpperCase (x @ a) = toUpperCase (x @ toUpperCase_ascii a)"
proof (induction a arbitrary: x)
  case Nil
  show ?case by (simp add: toUpperCase_ascii_def)
next
  case (Cons c a)
  from Cons.prems have "toUpperCase (x @ c # a) = toUpperCase (x @ ascii_upper c # a)"
    by (simp add: ignores_ascii_case_def)
  also have "\<dots> = toUpperCase ((x @ [ascii_upper c]) @ a)"
    by simp
  also from Cons.prems have "\<dots> = toUpperCase ((x @ [ascii_upper c]) @ toUpperCase_ascii a)"
    by (rule Cons.IH)
  finally show ?case
    by (simp add: toUpperCase_ascii_def)
qed

lemma differ_toUpperCase:
  assumes "ignores_ascii_case toUpperCase" and "differ_only_in_ascii_case a b"
  shows "toUpperCase a = toUpperCase b"
  using ignores_ascii_case_prefix [OF assms(1), of "[]" a]
    ignores_ascii_case_prefix [OF assms(1), of "[]" b]
    differ_toUpperCase_ascii [OF assms(2)]
  by simp

lemma ascii_upper_idem: "ascii_upper (ascii_upper c) = ascii_upper c"
proof (cases "map_of (zip ''abcdefghijklmnopqrstuvwxyz'' ''ABCDEFGHIJKLMNOPQRSTUVWXYZ'') c")
  case None
  then show ?thesis by (simp add: ascii_upper_def)
next
  case (Some u)
  then have "case_pair c u"
    unfolding case_pair_def by (rule map_of_SomeD)
  then show ?thesis
    using case_pair_upper [of c u] by simp
qed

lemma ignores_ascii_case_ascii: "ignores_ascii_case toUpperCase_ascii"
  by (simp add: ignores_ascii_case_def toUpperCase_ascii_def ascii_upper_idem)

text \<open>
  C6, as the code has it. For an identifier without \<open>@\<close>, the first thing \<open>login\<close> does is
  to await \<open>getUserByRollNumber\<close> on \<open>toUpperCase\<close> of the identifier, whatever function
  \<open>toUpperCase\<close> is. Two identifiers without \<open>@\<close> that have the same upper-case form give
  the same call, indeed the same task; so do two identifiers that differ only in the case of
  ASCII letters, since \<open>toUpperCase\<close> does not tell an ASCII letter from its capital.
\<close>

theorem login_roll_number_upper_cased:
  assumes "\<not> str_includes a CHR ''@''"
  shows "login J toUpperCase now a pa s =
           GetUserByRollNumber (setIsLoading True s) (toUpperCase a)
             (login_found J now (setIsLoading True s)) \<and>
         (\<not> str_includes b CHR ''@'' \<and> toUpperCase b = toUpperCase a \<longrightarrow>
            login J toUpperCase now b pb s = login J toUpperCase now a pa s) \<and>
         (ignores_ascii_case toUpperCase \<and> differ_only_in_ascii_case a b \<longrightarrow>
            login J toUpperCase now b pb s = login J toUpperCase now a pa s)"
proof (intro conjI impI)
  from assms show "login J toUpperCase now a pa s =
      GetUserByRollNumber (setIsLoading True s) (toUpperCase a)
        (login_found J now (setIsLoading True s))"
    by (simp add: login_def Let_def)
next
  assume "\<not> str_includes b CHR ''@'' \<and> toUpperCase b = toUpperCase a"
  with assms show "login J toUpperCase now b pb s = login J toUpperCase now a pa s"
    by (simp add: login_def Let_def)
next
  assume h: "ignores_ascii_case toUpperCase \<and> differ_only_in_ascii_case a b"
  then have "toUpperCase a = toUpperCase b"
    by (simp add: differ_toUpperCase)
  moreover from h assms have "\<not> str_includes b CHR ''@''"
    using differ_includes [of a b] by simp
  ultimately show "login J toUpperCase now b pb s = login J toUpperCase now a pa s"
    using assms by (simp add: login_def Let_def)
qed

theorem login_roll_number_upper_cased_witness:
  "\<not> str_includes ''abc123'' CHR ''@'' \<and> \<not> str_includes ''ABC123'' CHR ''@'' \<and>
   toUpperCase_ascii ''ABC123'' = toUpperCase_ascii ''abc123'' \<and>
   ignores_ascii_case toUpperCase_ascii \<and> differ_only_in_ascii_case ''abc123'' ''ABC123'' \<and>
   login sample_JSON toUpperCase_ascii ''t1'' ''abc123'' ''pw1'' (initial_state Map.empty) =
     GetUserByRollNumber (setIsLoading True (initial_state Map.empty)) ''ABC123''
       (login_found sample_JSON ''t1'' (setIsLoading True (initial_state Map.empty))) \<and>
   login sample_JSON toUpperCase_ascii ''t1'' ''ABC123'' ''pw2'' (initial_state Map.empty) =
     login sample_JSON toUpperCase_ascii ''t1'' ''abc123'' ''pw1'' (initial_state Map.empty)"
proof -
  have a: "\<not> str_includes ''abc123'' CHR ''@''" and a': "\<not> str_includes ''ABC123'' CHR ''@''"
    by (simp_all add: str_includes_def)
  have b: "differ_only_in_ascii_case ''abc123'' ''ABC123''"
    by (simp add: differ_only_in_ascii_case_def same_letter_def case_pair_def)
  have c: "toUpperCase_ascii ''abc123'' = ''ABC123''"
    and c': "toUpperCase_ascii ''ABC123'' = ''ABC123''"
    by (simp_all add: toUpperCase_ascii_def ascii_upper_def)
  note d = ignores_ascii_case_ascii
  from login_roll_number_upper_cased [OF a, where J = sample_JSON
      and toUpperCase = toUpperCase_ascii and now = "''t1''" and pa = "''pw1''"
      and s = "initial_state Map.empty" and b = "''ABC123''" and pb = "''pw2''"] a a' b c c' d
  show ?thesis by simp
qed

text \<open>
  The specification's sentence for C6 covers every pair that differs only in letter case. The
  small sharp s and its capital are such a pair; \<open>login\<close> asks for \<open>SS\<close> with the first and
  for the capital sharp s itself with the second.
\<close>

theorem login_roll_number_upper_cased_counterexample:
  "\<not> str_includes sharp_s CHR ''@'' \<and> \<not> str_includes capital_sharp_s CHR ''@'' \<and>
   login sample_JSON toUpperCase_sharp_s ''t1'' sharp_s ''pw'' (initial_state Map.empty) =
     GetUserByRollNumber (setIsLoading True (initial_state Map.empty)) ''SS''
       (login_found sample_JSON ''t1'' (setIsLoading True (initial_state Map.empty))) \<and>
   login sample_JSON toUpperCase_sharp_s ''t1'' capital_sharp_s ''pw'' (initial_state Map.empty) =
     GetUserByRollNumber (setIsLoading True (initial_state Map.empty)) capital_sharp_s
       (login_found sample_JSON ''t1'' (setIsLoading True (initial_state Map.empty))) \<and>
   login sample_JSON toUpperCase_sharp_s ''t1'' sharp_s ''pw'' (initial_state Map.empty) \<noteq>
     login sample_JSON toUpperCase_sharp_s ''t1'' capital_sharp_s ''pw'' (initial_state Map.empty)"
  by (simp add: login_def Let_def str_includes_def sharp_s_def capital_sharp_s_def
      toUpperCase_sharp_s_def toUpperCase_ascii_def ascii_upper_def)

subsection \<open>logout\<close>

text \<open>
  C7. \<open>logout\<close> is a function of the state alone (it awaits nothing). It sets the user to
  absent and removes the stored \<open>user\<close> record, leaving everything else; it is idempotent,
  and changes nothing when there is no user in memory and no stored record; \<open>initializeAuth\<close>
  after it, in the same provider or in a newly mounted one over the same storage, restores no
  user.
\<close>

theorem logout_clears_session:
  "user (logout s) = None \<and>
   localStorage (logout s) = (localStorage s)(''user'' := None) \<and>
   admin (logout s) = admin s \<and> isLoading (logout s) = isLoading s \<and>
   isInitialized (logout s) = isInitialized s \<and>
   logout (logout s) = logout s \<and>
   (user s = None \<and> localStorage s ''user'' = None \<longrightarrow> logout s = s) \<and>
   user (initializeAuth J (logout s)) = None \<and>
   user (initializeAuth J (initial_state (localStorage (logout s)))) = None"
proof -
  have clear: "user (logout s) = None \<and>
      localStorage (logout s) = (localStorage s)(''user'' := None) \<and>
      admin (logout s) = admin s \<and> isLoading (logout s) = isLoading s \<and>
      isInitialized (logout s) = isInitialized s"
    by (simp add: logout_def state_defs)
  have idem: "logout (logout s) = logout s"
    by (simp add: logout_def state_defs)
  have noop: "logout s = s" if "user s = None" and "localStorage s ''user'' = None"
  proof -
    from that(2) have "(localStorage s)(''user'' := None) = localStorage s"
      by (rule fun_upd_idem)
    with that(1) show ?thesis
      by (cases s) (simp add: logout_def state_defs)
  qed
  have restore: "user (initializeAuth J s') = None"
    if "user s' = None" and "localStorage s' ''user'' = None" for s'
    using that by (simp add: initializeAuth_defs state_defs split: option.split)
  have "user (initializeAuth J (logout s)) = None"
    by (rule restore) (simp_all add: logout_def state_defs)
  moreover have "user (initializeAuth J (initial_state (localStorage (logout s)))) = None"
    by (rule restore) (simp_all add: logout_def state_defs initial_state_def)
  ultimately show ?thesis
    using clear idem noop by blast
qed

theorem logout_clears_session_witness:
  "user (initial_state Map.empty) = None \<and> localStorage (initial_state Map.empty) ''user'' = None \<and>
   logout (initial_state Map.empty) = initial_state Map.empty \<and>
   user (logout (setUser (Some (restoredUser alice_mirror)) (initial_state [''user'' \<mapsto> ''{}'']))) = None \<and>
   localStorage (logout (setUser (Some (restoredUser alice_mirror)) (initial_state [''user'' \<mapsto> ''{}'']))) ''user'' = None"
  using logout_clears_session [of "initial_state Map.empty" sample_JSON]
    logout_clears_session [of "setUser (Some (restoredUser alice_mirror)) (initial_state [''user'' \<mapsto> ''{}''])" sample_JSON]
  by (simp add: initial_state_def)


subsection \<open>Malformed stored sessions\<close>

text \<open>
  C2, as the code has it. When the \<open>user\<close> or the \<open>admin\<close> key holds a non-empty text that
  \<open>JSON.parse\<close> rejects, \<open>initializeAuth\<close> returns (the exception is caught), with
  \<open>isInitialized\<close> true and with both stored keys removed, the malformed one and the other
  one. No admin session is set, and when the malformed key is \<open>user\<close> no user session is set
  either. (An empty text is skipped by \<open>if (storedUser)\<close> like a missing key.)
\<close>

theorem initializeAuth_malformed:
  assumes "k = ''user'' \<or> k = ''admin''"
    and "localStorage s k = Some content" and "content \<noteq> []" and "parse J content = None"
  shows "localStorage (initializeAuth J s) = (localStorage s)(''user'' := None, ''admin'' := None) \<and>
         isInitialized (initializeAuth J s) \<and>
         isLoading (initializeAuth J s) = isLoading s \<and>
         admin (initializeAuth J s) = admin s \<and>
         (k = ''user'' \<longrightarrow> user (initializeAuth J s) = user s)"
proof (cases "initializeAuth_user J s")
  case (Threw s1)
  then have "s1 = s"
    by (auto simp: initializeAuth_user_def split: option.splits if_splits)
  with Threw show ?thesis
    by (simp add: initializeAuth_def initializeAuth_try_def initializeAuth_catch_def state_defs)
next
  case (Completed s1)
  with assms have k: "k = ''admin''"
    by (auto simp: initializeAuth_user_def state_defs split: option.splits if_splits)
  from Completed have s1: "localStorage s1 = localStorage s" "admin s1 = admin s" "isLoading s1 = isLoading s"
    by (auto simp: initializeAuth_user_def state_defs split: option.splits if_splits)
  with assms k have "initializeAuth_admin J s1 = Threw s1"
    by (simp add: initializeAuth_admin_def state_defs)
  with Completed s1 k show ?thesis
    by (simp add: initializeAuth_def initializeAuth_try_def initializeAuth_catch_def state_defs)
qed

theorem initializeAuth_malformed_witness:
  "localStorage (initial_state [''user'' \<mapsto> ''{'', ''admin'' \<mapsto> ''{}'']) ''user'' = Some ''{'' \<and>
   ''{'' \<noteq> [] \<and> parse sample_JSON ''{'' = None \<and>
   localStorage (initializeAuth sample_JSON (initial_state [''user'' \<mapsto> ''{'', ''admin'' \<mapsto> ''{}''])) = Map.empty \<and>
   isInitialized (initializeAuth sample_JSON (initial_state [''user'' \<mapsto> ''{'', ''admin'' \<mapsto> ''{}''])) \<and>
   user (initializeAuth sample_JSON (initial_state [''user'' \<mapsto> ''{'', ''admin'' \<mapsto> ''{}''])) = None \<and>
   admin (initializeAuth sample_JSON (initial_state [''user'' \<mapsto> ''{'', ''admin'' \<mapsto> ''{}''])) = JNull"
proof -
  have a: "localStorage (initial_state [''user'' \<mapsto> ''{'', ''admin'' \<mapsto> ''{}'']) ''user'' = Some ''{''"
    by (simp add: initial_state_def)
  have b: "''{'' \<noteq> []" by simp
  have c: "parse sample_JSON ''{'' = None"
    by (simp add: sample_JSON_def JSON_of_table_def alice_text_def)
  have d: "''user'' = ''user'' \<or> ''user'' = ''admin''" by simp
  from initializeAuth_malformed [OF d a b c] a b c
  show ?thesis by (simp add: initial_state_def)
qed

text \<open>
  The specification's sentence for C2 has only the malformed key deleted. With the malformed
  text \<open>{\<close> under \<open>user\<close> and the well-formed text \<open>{}\<close> under \<open>admin\<close>, the \<open>admin\<close> key
  is removed as well: the storage is not the initial one without \<open>user\<close>.
\<close>

theorem initializeAuth_malformed_counterexample:
  "parse sample_JSON ''{'' = None \<and> parse sample_JSON ''{}'' = Some (JObj []) \<and>
   localStorage (initializeAuth sample_JSON (initial_state [''user'' \<mapsto> ''{'', ''admin'' \<mapsto> ''{}''])) ''admin'' = None \<and>
   localStorage (initializeAuth sample_JSON (initial_state [''user'' \<mapsto> ''{'', ''admin'' \<mapsto> ''{}''])) \<noteq>
     [''user'' \<mapsto> ''{'', ''admin'' \<mapsto> ''{}''](''user'' := None)"
proof -
  let ?s = "initializeAuth sample_JSON (initial_state [''user'' \<mapsto> ''{'', ''admin'' \<mapsto> ''{}''])"
  have p: "parse sample_JSON ''{'' = None \<and> parse sample_JSON ''{}'' = Some (JObj [])"
    by (simp add: sample_JSON_def JSON_of_table_def alice_text_def)
  have a: "localStorage ?s ''admin'' = None"
    by (simp add: sample_JSON_def JSON_of_table_def alice_text_def initializeAuth_defs
        state_defs initial_state_def)
  have b: "([''user'' \<mapsto> ''{'', ''admin'' \<mapsto> ''{}''](''user'' := None)) ''admin'' = Some ''{}''"
    by simp
  from a b have "localStorage ?s \<noteq> [''user'' \<mapsto> ''{'', ''admin'' \<mapsto> ''{}''](''user'' := None)"
    by (metis option.distinct(1))
  with p a show ?thesis by blast
qed

text \<open>An empty stored text is not parsed and stays in the storage.\<close>

lemma initializeAuth_empty_content:
  "localStorage s ''user'' = Some [] \<Longrightarrow> localStorage s ''admin'' = None \<Longrightarrow>
   initializeAuth J s = s\<lparr>isInitialized := True\<rparr>"
  by (simp add: initializeAuth_defs state_defs)

subsection \<open>Register, then login\<close>

lemma find_append_last:
  "\<forall>x\<in>set xs. \<not> P x \<Longrightarrow> find P (xs @ [y]) = (if P y then Some y else None)"
  by (induction xs) auto

lemma find_none: "\<forall>x\<in>set xs. \<not> P x \<Longrightarrow> find P xs = None"
  by (induction xs) auto

lemma endsWith_includes: "endsWith s suf \<Longrightarrow> c \<in> set suf \<Longrightarrow> str_includes s c"
  unfolding endsWith_def str_includes_def
  by (metis in_set_dropD)

lemma register_store_success:
  assumes "\<forall>u\<in>set (users db). NewUser.email u \<noteq> NewUser.email userData"
    and "\<forall>u\<in>set (users db). NewUser.roll_number u \<noteq> NewUser.roll_number userData"
  shows "\<exists>u g. run (store_service new_id clock) (register now userData s) db =
     ((Success, s\<lparr>isLoading := False\<rparr>), db\<lparr>users := users db @ [u], registrations := registrations db @ [g]\<rparr>)
     \<and> NewUser.email u = NewUser.email userData \<and> NewUser.roll_number u = NewUser.roll_number userData"
  using assms
  apply (simp add: register_defs state_defs Let_def store_defs find_none)
  apply (intro exI conjI)
    apply (rule refl)
   apply simp_all
  done

lemma login_store_success:
  assumes "endsWith e ''@raghuenggcollege.in''"
    and "\<forall>x\<in>set us. NewUser.email x \<noteq> e" and "NewUser.email u = e"
  shows "\<exists>s2 db2 a. run (store_service new_id clock) (login J toUpperCase now e password s)
            (db\<lparr>users := us @ [u]\<rparr>) = ((Success, s2), db2) \<and>
           user s2 = Some a \<and> AuthUser.roll_number a = JStr (NewUser.roll_number u)"
proof -
  from assms(1) have "str_includes e CHR ''@''"
    by (rule endsWith_includes) simp
  with assms show ?thesis
    by (simp add: login_defs state_defs Let_def store_defs find_append_last)
qed

text \<open>
  C3, for an email with the college suffix, over the list-backed data service. If no record
  has the email \<open>e\<close> or the roll number \<open>n\<close>, and \<open>register\<close> with them succeeds, then
  \<open>login\<close> with \<open>e\<close> and any password succeeds on the resulting state and store, and the
  session user has roll number \<open>n\<close>.
\<close>

theorem register_then_login:
  assumes "endsWith e ''@raghuenggcollege.in''"
    and "NewUser.email userData = e" and "NewUser.roll_number userData = n"
    and "\<forall>u\<in>set (users db). NewUser.email u \<noteq> e"
    and "\<forall>u\<in>set (users db). NewUser.roll_number u \<noteq> n"
    and "run (store_service new_id clock) (register now userData s) db = ((Success, s1), db1)"
  shows "\<exists>s2 db2 a.
           run (store_service new_id clock) (login J toUpperCase now' e password s1) db1 = ((Success, s2), db2) \<and>
           user s2 = Some a \<and> AuthUser.roll_number a = JStr n"
proof -
  from assms(2-5) obtain u g where
    r: "run (store_service new_id clock) (register now userData s) db =
        ((Success, s\<lparr>isLoading := False\<rparr>),
         db\<lparr>users := users db @ [u], registrations := registrations db @ [g]\<rparr>)"
    and u: "NewUser.email u = e" "NewUser.roll_number u = n"
    using register_store_success [of db userData new_id clock now s] by auto
  from r assms(6) have db1: "db1 = (db\<lparr>registrations := registrations db @ [g]\<rparr>)\<lparr>users := users db @ [u]\<rparr>"
    by simp
  from login_store_success [OF assms(1) assms(4) u(1), of new_id clock J toUpperCase now' password s1
      "db\<lparr>registrations := registrations db @ [g]\<rparr>"] u(2) db1
  show ?thesis by simp
qed

theorem register_then_login_witness:
  "endsWith ''bob@raghuenggcollege.in'' ''@raghuenggcollege.in'' \<and>
   users sample_store = [alice] \<and>
   NewUser.email alice \<noteq> ''bob@raghuenggcollege.in'' \<and>
   NewUser.roll_number alice \<noteq> ''R2'' \<and>
   fst (fst (run sample_service (register ''t1'' bob (initial_state Map.empty)) sample_store)) =
     Success \<and>
   (\<exists>s2 db2 a.
      run sample_service
        (login sample_JSON toUpperCase_ascii ''t2'' ''bob@raghuenggcollege.in'' ''any password''
           (snd (fst (run sample_service (register ''t1'' bob (initial_state Map.empty))
                        sample_store))))
        (snd (run sample_service (register ''t1'' bob (initial_state Map.empty)) sample_store)) =
        ((Success, s2), db2) \<and>
      user s2 = Some a \<and> AuthUser.roll_number a = JStr ''R2'')"
proof -
  let ?reg = "run sample_service (register ''t1'' bob (initial_state Map.empty)) sample_store"
  have a: "endsWith ''bob@raghuenggcollege.in'' ''@raghuenggcollege.in''"
    by (simp add: endsWith_def)
  have b: "NewUser.email bob = ''bob@raghuenggcollege.in''"
    and c: "NewUser.roll_number bob = ''R2''"
    by (simp_all add: bob_def)
  have d: "\<forall>u\<in>set (users sample_store). NewUser.email u \<noteq> ''bob@raghuenggcollege.in''"
    and e: "\<forall>u\<in>set (users sample_store). NewUser.roll_number u \<noteq> ''R2''"
    by (simp_all add: sample_store_def alice_def)
  have f: "fst (fst ?reg) = Success"
    by (simp add: sample_defs store_defs register_defs state_defs Let_def initial_state_def
        bob_def)
  then have g: "run (store_service (\<lambda>db. ''u2'') ''t0'')
      (register ''t1'' bob (initial_state Map.empty)) sample_store =
      ((Success, snd (fst ?reg)), snd ?reg)"
    by (simp add: sample_service_def prod_eq_iff)
  have h: "users sample_store = [alice] \<and>
      NewUser.email alice \<noteq> ''bob@raghuenggcollege.in'' \<and> NewUser.roll_number alice \<noteq> ''R2''"
    by (simp add: sample_store_def alice_def)
  from register_then_login [OF a b c d e g, of sample_JSON toUpperCase_ascii "''t2''"
      "''any password''"] a h f
  show ?thesis by (simp add: sample_service_def)
qed

text \<open>
  With the email \<open>a@inst.edu\<close> of the specification's example, \<open>register\<close> succeeds on the
  empty store (it does not look at the domain), and the following \<open>login\<close> is refused by the
  domain check.
\<close>

theorem register_then_login_counterexample:
  "fst (fst (run sample_service (register ''t1'' inst_user (initial_state Map.empty)) empty_store)) = Success \<and>
   fst (fst (run sample_service
      (login sample_JSON toUpperCase_ascii ''t2'' ''a@inst.edu'' ''pw''
         (snd (fst (run sample_service (register ''t1'' inst_user (initial_state Map.empty)) empty_store))))
      (snd (run sample_service (register ''t1'' inst_user (initial_state Map.empty)) empty_store)))) =
   Failure ''Please use your college email ID (@raghuenggcollege.in)''"
  by (simp add: sample_service_def store_defs empty_store_def inst_user_def register_defs
      login_defs state_defs Let_def str_includes_def endsWith_def initial_state_def)

subsection \<open>The order of the uniqueness checks\<close>

text \<open>
  C5. When the lookup by email finds a record, \<open>register\<close> returns the duplicate-email
  message and makes no further call (the store is the one the first lookup left): this is so
  for every data service, whatever a lookup by the roll number would find.
\<close>

theorem register_duplicate_email_first:
  assumes "getUserByEmail svc (NewUser.email userData) db = (Resolves byEmail, db1)"
    and "data byEmail = Some u"
  shows "run svc (register now userData s) db =
           ((Failure ''An account with this email already exists'', s\<lparr>isLoading := False\<rparr>), db1)"
  using assms by (simp add: register_defs state_defs Let_def)

theorem register_duplicate_email_first_witness:
  "getUserByEmail sample_service (NewUser.email alice_again) sample_store =
     (Resolves \<lparr>data = Some alice, error = None\<rparr>, sample_store) \<and>
   getUserByRollNumber sample_service (NewUser.roll_number alice_again) sample_store =
     (Resolves \<lparr>data = Some alice, error = None\<rparr>, sample_store) \<and>
   run sample_service (register ''t1'' alice_again (initial_state Map.empty)) sample_store =
     ((Failure ''An account with this email already exists'',
       (initial_state Map.empty)\<lparr>isLoading := False\<rparr>), sample_store)"
proof -
  have a: "getUserByEmail sample_service (NewUser.email alice_again) sample_store =
      (Resolves \<lparr>data = Some alice, error = None\<rparr>, sample_store)"
    by (simp add: sample_service_def store_defs sample_store_def alice_again_def alice_def)
  have b: "data \<lparr>data = Some alice, error = None\<rparr> = Some alice"
    by simp
  have c: "getUserByRollNumber sample_service (NewUser.roll_number alice_again) sample_store =
      (Resolves \<lparr>data = Some alice, error = None\<rparr>, sample_store)"
    by (simp add: sample_service_def store_defs sample_store_def alice_again_def alice_def)
  from register_duplicate_email_first [OF a b, of "''t1''" "initial_state Map.empty"] a c
  show ?thesis by simp
qed

subsection \<open>The last-login update\<close>

text \<open>
  C8, as the code has it. When the lookup finds a record and the promise of \<open>updateUser\<close>
  resolves, with any result object (an \<open>error\<close> in it or not), \<open>login\<close> succeeds: the
  session user is built from the fetched record, its mirror is stored under \<open>user\<close>, and
  \<open>isLoading\<close> is false.
\<close>

theorem login_update_best_effort:
  assumes "str_includes identifier CHR ''@'' \<longrightarrow> endsWith identifier ''@raghuenggcollege.in''"
    and "(if str_includes identifier CHR ''@'' then getUserByEmail svc identifier db
          else getUserByRollNumber svc (toUpperCase identifier) db) = (Resolves found, db1)"
    and "data found = Some u"
    and "updateUser svc (User.id u) (LastLogin now) db1 = (Resolves updated, db2)"
  shows "run svc (login J toUpperCase now identifier password s) db =
     ((Success,
       s\<lparr>user := Some
            \<lparr>AuthUser.id = JStr (User.id u), AuthUser.email = JStr (NewUser.email u),
             AuthUser.full_name = JStr (NewUser.full_name u),
             AuthUser.roll_number = JStr (NewUser.roll_number u),
             AuthUser.branch = JStr (NewUser.branch u), AuthUser.year = JStr (NewUser.year u),
             AuthUser.phone_number = JStr (NewUser.phone_number u),
             AuthUser.status = JStr (NewUser.status u)\<rparr>,
         localStorage := (localStorage s)(''user'' \<mapsto>
            stringify J (JObj
              [(''id'', JStr (User.id u)), (''name'', JStr (NewUser.full_name u)),
               (''rollNumber'', JStr (NewUser.roll_number u)),
               (''email'', JStr (NewUser.email u)), (''branch'', JStr (NewUser.branch u)),
               (''year'', JStr (NewUser.year u)), (''phone'', JStr (NewUser.phone_number u)),
               (''status'', JStr (NewUser.status u))])),
         isLoading := False\<rparr>), db2)"
proof (cases "str_includes identifier CHR ''@''")
  case True
  with assms show ?thesis
    by (simp add: login_defs state_defs Let_def)
next
  case False
  with assms show ?thesis
    by (simp add: login_defs state_defs Let_def)
qed

theorem login_update_best_effort_witness:
  "\<not> str_includes ''r1'' CHR ''@'' \<and>
   getUserByRollNumber failing_update (toUpperCase_ascii ''r1'') sample_store =
     (Resolves \<lparr>data = Some alice, error = None\<rparr>, sample_store) \<and>
   updateUser failing_update (User.id alice) (LastLogin ''t1'') sample_store =
     (Resolves \<lparr>data = None, error = Some ''update failed''\<rparr>, sample_store) \<and>
   run failing_update (login sample_JSON toUpperCase_ascii ''t1'' ''r1'' ''pw'' (initial_state Map.empty))
     sample_store =
     ((Success,
       \<lparr>user = Some
          \<lparr>AuthUser.id = JStr ''u1'', AuthUser.email = JStr ''alice@raghuenggcollege.in'',
           AuthUser.full_name = JStr ''Alice'', AuthUser.roll_number = JStr ''R1'',
           AuthUser.branch = JStr ''CSE'', AuthUser.year = JStr ''2'',
           AuthUser.phone_number = JStr ''900'', AuthUser.status = JStr ''active''\<rparr>,
        admin = JNull, isLoading = False, isInitialized = False,
        localStorage = [''user'' \<mapsto> alice_text]\<rparr>), sample_store)"
proof -
  have a: "str_includes ''r1'' CHR ''@'' \<longrightarrow> endsWith ''r1'' ''@raghuenggcollege.in''"
    by (simp add: str_includes_def)
  have l: "getUserByRollNumber failing_update (toUpperCase_ascii ''r1'') sample_store =
      (Resolves \<lparr>data = Some alice, error = None\<rparr>, sample_store)"
    by (simp add: failing_update_def sample_service_def store_defs sample_store_def alice_def
        toUpperCase_ascii_def ascii_upper_def)
  then have b: "(if str_includes ''r1'' CHR ''@'' then getUserByEmail failing_update ''r1'' sample_store
       else getUserByRollNumber failing_update (toUpperCase_ascii ''r1'') sample_store) =
      (Resolves \<lparr>data = Some alice, error = None\<rparr>, sample_store)"
    by (simp add: str_includes_def)
  have c: "data \<lparr>data = Some alice, error = None\<rparr> = Some alice"
    by simp
  have d: "updateUser failing_update (User.id alice) (LastLogin ''t1'') sample_store =
      (Resolves \<lparr>data = None, error = Some ''update failed''\<rparr>, sample_store)"
    by (simp add: failing_update_def)
  have n: "\<not> str_includes ''r1'' CHR ''@''"
    by (simp add: str_includes_def)
  from login_update_best_effort [where toUpperCase = toUpperCase_ascii and J = sample_JSON
      and password = "''pw''" and s = "initial_state Map.empty", OF a b c d]
    n l d
  show ?thesis
    by (simp add: initial_state_def alice_def sample_JSON_def JSON_of_table_def alice_mirror_def)
qed

text \<open>
  A rejected promise is a behaviour of \<open>updateUser\<close> too. Then the \<open>await\<close> throws into the
  \<open>catch\<close> block: \<open>login\<close> returns the generic error and sets no session, although the
  lookup found the record.
\<close>

theorem login_update_best_effort_counterexample:
  "getUserByRollNumber rejecting_update ''R1'' sample_store =
     (Resolves \<lparr>data = Some alice, error = None\<rparr>, sample_store) \<and>
   updateUser rejecting_update (User.id alice) (LastLogin ''t1'') sample_store = (Rejects, sample_store) \<and>
   run rejecting_update (login sample_JSON toUpperCase_ascii ''t1'' ''R1'' ''pw'' (initial_state Map.empty)) sample_store =
     ((Failure ''An error occurred during login. Please try again.'',
       initial_state Map.empty), sample_store)"
   by (simp add: rejecting_update_def sample_service_def store_defs sample_store_def alice_def
   login_defs state_defs Let_def str_includes_def toUpperCase_ascii_def ascii_upper_def initial_state_def)

subsection \<open>isLoading\<close>

lemma during_login:
  "during isLoading (\<lambda>r s'. \<not> isLoading s') (login J toUpperCase now emailOrRoll password s)"
  by (simp add: login_defs state_defs Let_def split: outcome.split option.split)

lemma during_register:
  "during isLoading (\<lambda>r s'. \<not> isLoading s') (register now userData s)"
  by (simp add: register_defs state_defs Let_def split: outcome.split option.split)

lemma during_adminLogin:
  "during isLoading (\<lambda>r s'. \<not> isLoading s') (adminLogin J username password s)"
  by (simp add: adminLogin_defs state_defs Let_def split: outcome.split option.split)

lemma completes_during: "completes t r s' \<Longrightarrow> during P Q t \<Longrightarrow> Q r s'"
  by (induction rule: completes.induct) auto

lemma run_during: "during P Q t \<Longrightarrow> Q (fst (fst (run svc t db))) (snd (fst (run svc t db)))"
  by (induction t arbitrary: db) (auto split: prod.split)

lemma isLoading_initializeAuth: "isLoading (initializeAuth J s) = isLoading s"
  by (simp add: initializeAuth_defs state_defs split: option.split completion.split)

lemma quiescent_not_loading: "quiescent s \<Longrightarrow> \<not> isLoading s"
proof (induction rule: quiescent.induct)
  case (mount ls)
  show ?case by (simp add: initial_state_def)
next
  case (initializeAuth s J)
  then show ?case by (simp add: isLoading_initializeAuth)
next
  case (logout s)
  then show ?case by (simp add: logout_def state_defs)
next
  case (adminLogout s)
  then show ?case by (simp add: adminLogout_def state_defs)
next
  case (login s J now emailOrRoll password r s')
  from completes_during [OF login.hyps(2) during_login] show ?case .
next
  case (register s now userData r s')
  from completes_during [OF register.hyps(2) during_register] show ?case .
next
  case (adminLogin s J username password r s')
  from completes_during [OF adminLogin.hyps(2) during_adminLogin] show ?case .
qed

lemma run_completes:
  "run svc t db = ((r, s'), db') \<Longrightarrow> completes t r s'"
proof (induction t arbitrary: db)
  case (Return r0 s0)
  then show ?case by (auto intro: completes.Return)
next
  case (GetUserByEmail s e k)
  then show ?case
    by (auto split: prod.splits intro!: completes.GetUserByEmail)
next
  case (GetUserByRollNumber s n k)
  then show ?case
    by (auto split: prod.splits intro!: completes.GetUserByRollNumber)
next
  case (UpdateUser s i p k)
  then show ?case
    by (auto split: prod.splits intro!: completes.UpdateUser)
next
  case (CreateUser s u k)
  then show ?case
    by (auto split: prod.splits intro!: completes.CreateUser)
next
  case (CreateRegistration s g k)
  then show ?case
    by (auto split: prod.splits intro!: completes.CreateRegistration)
next
  case (AuthenticateAdmin s u p k)
  then show ?case
    by (auto split: prod.splits intro!: completes.AuthenticateAdmin)
qed

text \<open>
  C9. \<open>register\<close> and \<open>adminLogin\<close> start by setting \<open>isLoading\<close> to true: at their first
  suspension the state is the one of the call with \<open>isLoading\<close> true. So does \<open>login\<close>,
  unless the domain check fails; then it sets \<open>isLoading\<close> to true and back to false with
  no suspension in between and returns at once. In all three, \<open>isLoading\<close> is true at every
  suspension and false at every return, whatever the outcomes of the awaited calls,
  rejections included; in particular it is false after the call has run against any data
  service. In every state between calls it is false.
\<close>

theorem isLoading_only_in_flight:
  "first_suspension (login J toUpperCase now emailOrRoll password s) =
     (if str_includes emailOrRoll CHR ''@'' \<and> \<not> endsWith emailOrRoll ''@raghuenggcollege.in''
      then None else Some (s\<lparr>isLoading := True\<rparr>)) \<and>
   first_suspension (register now userData s) = Some (s\<lparr>isLoading := True\<rparr>) \<and>
   first_suspension (adminLogin J username password s) = Some (s\<lparr>isLoading := True\<rparr>) \<and>
   during isLoading (\<lambda>r s'. \<not> isLoading s') (login J toUpperCase now emailOrRoll password s) \<and>
   during isLoading (\<lambda>r s'. \<not> isLoading s') (register now userData s) \<and>
   during isLoading (\<lambda>r s'. \<not> isLoading s') (adminLogin J username password s) \<and>
   \<not> isLoading (snd (fst (run svc (login J toUpperCase now emailOrRoll password s) db))) \<and>
   \<not> isLoading (snd (fst (run svc (register now userData s) db))) \<and>
   \<not> isLoading (snd (fst (run svc (adminLogin J username password s) db))) \<and>
   (quiescent s \<longrightarrow> \<not> isLoading s)"
proof (intro conjI impI)
  show "first_suspension (login J toUpperCase now emailOrRoll password s) =
      (if str_includes emailOrRoll CHR ''@'' \<and> \<not> endsWith emailOrRoll ''@raghuenggcollege.in''
       then None else Some (s\<lparr>isLoading := True\<rparr>))"
    by (simp add: login_def login_finally_def state_defs Let_def)
  show "first_suspension (register now userData s) = Some (s\<lparr>isLoading := True\<rparr>)"
    by (simp add: register_def state_defs Let_def)
  show "first_suspension (adminLogin J username password s) = Some (s\<lparr>isLoading := True\<rparr>)"
    by (simp add: adminLogin_def state_defs Let_def)
  show "\<not> isLoading (snd (fst (run svc (login J toUpperCase now emailOrRoll password s) db)))"
    by (rule run_during [OF during_login])
  show "\<not> isLoading (snd (fst (run svc (register now userData s) db)))"
    by (rule run_during [OF during_register])
  show "\<not> isLoading (snd (fst (run svc (adminLogin J username password s) db)))"
    by (rule run_during [OF during_adminLogin])
qed (rule during_login during_register during_adminLogin quiescent_not_loading; assumption?)+

theorem isLoading_only_in_flight_witness:
  "quiescent (snd (fst (run sample_service
      (login sample_JSON toUpperCase_ascii ''t1'' ''R1'' ''pw'' (initial_state Map.empty)) sample_store))) \<and>
   user (snd (fst (run sample_service
      (login sample_JSON toUpperCase_ascii ''t1'' ''R1'' ''pw'' (initial_state Map.empty)) sample_store))) \<noteq> None \<and>
   \<not> isLoading (snd (fst (run sample_service
      (login sample_JSON toUpperCase_ascii ''t1'' ''R1'' ''pw'' (initial_state Map.empty)) sample_store)))"
proof -
  let ?t = "login sample_JSON toUpperCase_ascii ''t1'' ''R1'' ''pw'' (initial_state Map.empty)"
  let ?s = "snd (fst (run sample_service ?t sample_store))"
  have "run sample_service ?t sample_store =
      ((fst (fst (run sample_service ?t sample_store)), ?s), snd (run sample_service ?t sample_store))"
    by simp
  then have "completes ?t (fst (fst (run sample_service ?t sample_store))) ?s"
    by (rule run_completes)
  with quiescent.mount have q: "quiescent ?s"
    by (rule quiescent.login)
  have u: "user ?s \<noteq> None"
    by (simp add: sample_defs store_defs login_defs state_defs Let_def str_includes_def
        toUpperCase_ascii_def ascii_upper_def initial_state_def)
  from isLoading_only_in_flight [where J = sample_JSON and toUpperCase = toUpperCase_ascii
      and now = "''t1''" and emailOrRoll = "''R1''" and password = "''pw''" and s = ?s
      and userData = bob and username = "''admin''" and svc = sample_service
      and db = sample_store] q u
  show ?thesis by blast
qed

subsection \<open>register sets no session\<close>

text \<open>
  C10. At every suspension and at every return of \<open>register\<close>, on every path, the user, the
  admin and the whole local storage are what they were when the call started; so they are
  after the call has run against any data service.
\<close>

theorem register_establishes_no_session:
  "during (\<lambda>s'. user s' = user s \<and> admin s' = admin s \<and> localStorage s' = localStorage s)
     (\<lambda>r s'. user s' = user s \<and> admin s' = admin s \<and> localStorage s' = localStorage s)
     (register now userData s) \<and>
   user (snd (fst (run svc (register now userData s) db))) = user s \<and>
   admin (snd (fst (run svc (register now userData s) db))) = admin s \<and>
   localStorage (snd (fst (run svc (register now userData s) db))) = localStorage s"
proof -
  have frame:
    "during (\<lambda>s'. user s' = user s \<and> admin s' = admin s \<and> localStorage s' = localStorage s)
       (\<lambda>r s'. user s' = user s \<and> admin s' = admin s \<and> localStorage s' = localStorage s)
       (register now userData s)"
    by (simp add: register_defs state_defs Let_def split: outcome.split option.split)
  from run_during [OF frame, of svc db] frame show ?thesis
    by simp
qed

end
